theory Spec2Isabelle
  imports Main "HOL-Library.Sublist"
begin

section \<open>Go values used by the solver\<close>

text \<open>
  A Go string is a sequence of bytes: \<^typ>\<open>string\<close>. A Go \<open>error\<close> value is observed only
  through its \<open>Error()\<close> text (that is what the verbs \<open>%v\<close> and \<open>%s\<close> print), so an error is
  modelled by that text. A function returning \<open>(T, error)\<close> is modelled by the sum
  \<open>error + T\<close>: \<open>Inl\<close> is the non-nil error (every caller in \<open>main.go\<close> discards the value
  in that case), \<open>Inr\<close> the value returned with a nil error. A function returning only
  \<open>error\<close> is modelled by \<open>error option\<close>, \<open>None\<close> being \<open>nil\<close>.
\<close>

datatype error = Err (text_of: string)

text \<open>The two punctuation characters of the messages that cannot stand in a literal.\<close>

abbreviation DQ :: string where "DQ \<equiv> [CHR 0x22]"
abbreviation BQ :: string where "BQ \<equiv> [CHR 0x60]"

text \<open>\<open>cmmeta.SecretKeySelector\<close>: the embedded \<open>LocalObjectReference.Name\<close> and \<open>Key\<close>.
  The fields are prefixed with \<open>Ref\<close> because \<open>ChallengeRequest\<close> has a field \<open>Key\<close> too.\<close>

record SecretKeySelector =
  RefName :: string
  RefKey :: string

record dodeDNSProviderConfig =
  APITokenSecretRef :: SecretKeySelector

text \<open>The fields of \<open>v1alpha1.ChallengeRequest\<close> that \<open>main.go\<close> reads. \<open>Config\<close> is a pointer
  to \<open>extapi.JSON\<close>: \<open>None\<close> is the nil pointer, \<open>Some raw\<close> holds the bytes of \<open>Raw\<close>.\<close>

record ChallengeRequest =
  ResolvedFQDN :: string
  Key :: string
  ResourceNamespace :: string
  Config :: "string option"

text \<open>\<open>APIResponse\<close>, local to \<open>makeRequest\<close>.\<close>

record APIResponse =
  Success :: bool
  Error :: string

text \<open>What \<open>makeRequest\<close> can read of an \<open>http.Response\<close>: it reads the body only, the
  status code is carried to state that it is never consulted.\<close>

record Response =
  StatusCode :: int
  Body :: string

section \<open>The libraries and the outside world\<close>

text \<open>
  \<open>main.go\<close> calls libraries whose code is not part of the repository; each call is a
  parameter of the model:
  \<^item> \<open>json_Unmarshal raw\<close>: \<open>json.Unmarshal(raw, &cfg)\<close> on a zero \<open>dodeDNSProviderConfig\<close>;
  \<^item> \<open>Secrets_Get namespace name\<close>: \<open>c.client.CoreV1().Secrets(namespace).Get(..., name, ...)\<close>,
    returning the \<open>Data\<close> map of the secret (the solver is taken as initialised, so
    \<open>c.client\<close> is not nil);
  \<^item> \<open>http_Get earlier url\<close>: \<open>client.Get(url)\<close> of an \<open>http.Client\<close> with a 30 second
    timeout, after the requests \<open>earlier\<close> were issued (so the provider may answer
    differently each time); a timeout is one of its errors;
  \<^item> \<open>json_Decode body\<close>: \<open>json.NewDecoder(resp.Body).Decode(&r)\<close> on a zero \<open>APIResponse\<close>;
  \<^item> \<open>strconv_Quote s\<close>: what the verb \<open>%q\<close> prints for the string \<open>s\<close>.
  The \<open>klog\<close> calls write to the process log and return nothing; they are left out.
\<close>

record env =
  json_Unmarshal :: "string \<Rightarrow> error + dodeDNSProviderConfig"
  Secrets_Get :: "string \<Rightarrow> string \<Rightarrow> error + (string \<rightharpoonup> string)"
  http_Get :: "string list \<Rightarrow> string \<Rightarrow> error + Response"
  json_Decode :: "string \<Rightarrow> error + APIResponse"
  strconv_Quote :: "string \<Rightarrow> string"

section \<open>The solver\<close>

definition DodeAPIURL :: string where
  "DodeAPIURL = ''https://www.do.de/api/letsencrypt''"

text \<open>\<open>strings.HasSuffix\<close> and \<open>strings.TrimSuffix\<close>, as the Go library defines them.\<close>

definition HasSuffix :: "string \<Rightarrow> string \<Rightarrow> bool" where
  "HasSuffix s suf \<longleftrightarrow>
     length s \<ge> length suf \<and> drop (length s - length suf) s = suf"

definition TrimSuffix :: "string \<Rightarrow> string \<Rightarrow> string" where
  "TrimSuffix s suf =
     (if HasSuffix s suf then take (length s - length suf) s else s)"

definition removeDOT :: "string \<Rightarrow> string" where
  "removeDOT fqdnURL =
     (if HasSuffix fqdnURL ''.'' then TrimSuffix fqdnURL ''.'' else fqdnURL)"

definition zero_config :: dodeDNSProviderConfig where
  "zero_config = \<lparr>APITokenSecretRef = \<lparr>RefName = [], RefKey = []\<rparr>\<rparr>"

definition loadConfig :: "env \<Rightarrow> string option \<Rightarrow> error + dodeDNSProviderConfig" where
  "loadConfig E cfgJSON =
     (case cfgJSON of
        None \<Rightarrow> Inr zero_config
      | Some raw \<Rightarrow>
          (case json_Unmarshal E raw of
             Inl err \<Rightarrow> Inl (Err (''error decoding solver config: '' @ text_of err))
           | Inr cfg \<Rightarrow> Inr cfg))"

definition getAPIKey :: "env \<Rightarrow> dodeDNSProviderConfig \<Rightarrow> string \<Rightarrow> error + string" where
  "getAPIKey E cfg namespace =
     (let secretName = RefName (APITokenSecretRef cfg) in
      case Secrets_Get E namespace secretName of
        Inl err \<Rightarrow>
          Inl (Err (''unable to get secret '' @ BQ @ secretName @ BQ @ ''; '' @ text_of err))
      | Inr secData \<Rightarrow>
          (case secData (RefKey (APITokenSecretRef cfg)) of
             None \<Rightarrow>
               Inl (Err (''key '' @ strconv_Quote E (RefKey (APITokenSecretRef cfg))
                     @ '' not found in secret '' @ DQ @ RefName (APITokenSecretRef cfg)
                     @ ''/'' @ namespace @ DQ))
           | Some secBytes \<Rightarrow> Inr secBytes))"

text \<open>
  The state threaded through the operations is the list of URLs handed to \<open>client.Get\<close>
  so far, oldest first: these requests are the only way the solver acts on the provider.
\<close>

definition makeRequest ::
  "env \<Rightarrow> string \<Rightarrow> string \<Rightarrow> string list \<Rightarrow> (error + bool) \<times> string list" where
  "makeRequest E method uri sent =
     (let url = DodeAPIURL @ uri in
      (case http_Get E sent url of
         Inl err \<Rightarrow>
           Inl (Err (''Error querying DODE API for '' @ method @ '' '' @ strconv_Quote E url
                 @ '' -> '' @ text_of err))
       | Inr resp \<Rightarrow>
           (case json_Decode E (Body resp) of
              Inl err \<Rightarrow> Inl err
            | Inr r \<Rightarrow>
                if \<not> Success r
                then Inl (Err (''DODE API error for '' @ method @ '' '' @ strconv_Quote E uri
                       @ '' '' @ Error r))
                else Inr (Success r)),
       sent @ [url]))"

definition Present :: "env \<Rightarrow> ChallengeRequest \<Rightarrow> string list \<Rightarrow> error option \<times> string list" where
  "Present E ch sent =
     (case loadConfig E (Config ch) of
        Inl err \<Rightarrow> (Some err, sent)
      | Inr cfg \<Rightarrow>
          (case getAPIKey E cfg (ResourceNamespace ch) of
             Inl err \<Rightarrow> (Some err, sent)
           | Inr apiKey \<Rightarrow>
               (case makeRequest E ''GET''
                       (''?token='' @ apiKey @ ''&domain='' @ removeDOT (ResolvedFQDN ch)
                          @ ''&value='' @ Key ch) sent of
                  (Inl err, sent') \<Rightarrow> (Some err, sent')
                | (Inr _, sent') \<Rightarrow> (None, sent'))))"

definition CleanUp :: "env \<Rightarrow> ChallengeRequest \<Rightarrow> string list \<Rightarrow> error option \<times> string list" where
  "CleanUp E ch sent =
     (case loadConfig E (Config ch) of
        Inl err \<Rightarrow> (Some err, sent)
      | Inr cfg \<Rightarrow>
          (case getAPIKey E cfg (ResourceNamespace ch) of
             Inl err \<Rightarrow> (Some err, sent)
           | Inr apiKey \<Rightarrow>
               (case makeRequest E ''GET''
                       (''?token='' @ apiKey @ ''&domain='' @ removeDOT (ResolvedFQDN ch)
                          @ ''&action=delete'') sent of
                  (Inl err, sent') \<Rightarrow> (Some err, sent')
                | (Inr _, sent') \<Rightarrow> (None, sent'))))"

section \<open>A concrete world for the worked instances\<close>

text \<open>
  The instances below run the solver in one small world: a secret store holding one secret
  \<open>dode-credentials\<close> in the namespace \<open>cert-manager\<close>, whose key \<open>apiToken\<close> holds the
  credential \<open>s3cr3t\<close>; decoders that know the documents used here and reject every other
  input; and a provider given as a parameter. \<open>quote_plain s\<close> is what \<open>%q\<close> prints for a
  string \<open>s\<close> of printable ASCII characters other than the double quote and the backslash:
  \<open>s\<close> between double quotes.
\<close>

definition quote_plain :: "string \<Rightarrow> string" where
  "quote_plain s = DQ @ s @ DQ"

definition example_config_json :: string where
  "example_config_json =
     ''{'' @ quote_plain ''apiTokenSecretRef'' @ '': {'' @ quote_plain ''name'' @ '': ''
       @ quote_plain ''dode-credentials'' @ '', '' @ quote_plain ''key'' @ '': ''
       @ quote_plain ''apiToken'' @ ''}}''"

definition example_config :: dodeDNSProviderConfig where
  "example_config =
     \<lparr>APITokenSecretRef = \<lparr>RefName = ''dode-credentials'', RefKey = ''apiToken''\<rparr>\<rparr>"

definition example_unmarshal :: "string \<Rightarrow> error + dodeDNSProviderConfig" where
  "example_unmarshal raw =
     (if raw = example_config_json then Inr example_config
      else Inl (Err ''unexpected end of JSON input''))"

definition example_secrets :: "string \<Rightarrow> string \<Rightarrow> error + (string \<rightharpoonup> string)" where
  "example_secrets namespace name =
     (if namespace = ''cert-manager'' \<and> name = ''dode-credentials''
      then Inr [''apiToken'' \<mapsto> ''s3cr3t'']
      else Inl (Err (''secrets '' @ quote_plain name @ '' not found'')))"

definition body_success :: string where
  "body_success = ''{'' @ quote_plain ''success'' @ '': true}''"

definition body_rate_limited :: string where
  "body_rate_limited =
     ''{'' @ quote_plain ''success'' @ '': false, '' @ quote_plain ''error'' @ '': ''
       @ quote_plain ''rate limited'' @ ''}''"

definition example_decode :: "string \<Rightarrow> error + APIResponse" where
  "example_decode body =
     (if body = body_success then Inr \<lparr>Success = True, Error = []\<rparr>
      else if body = body_rate_limited then Inr \<lparr>Success = False, Error = ''rate limited''\<rparr>
      else Inl (Err ''invalid character looking for beginning of value''))"

definition example_env :: "(string list \<Rightarrow> string \<Rightarrow> error + Response) \<Rightarrow> env" where
  "example_env provider =
     \<lparr>json_Unmarshal = example_unmarshal, Secrets_Get = example_secrets,
      http_Get = provider, json_Decode = example_decode, strconv_Quote = quote_plain\<rparr>"

definition example_challenge :: ChallengeRequest where
  "example_challenge =
     \<lparr>ResolvedFQDN = ''_acme-challenge.example.com.'', Key = ''txt-value'',
      ResourceNamespace = ''cert-manager'', Config = Some example_config_json\<rparr>"

text \<open>Four providers: one that accepts, one that rejects, one that cannot be reached and
  one that answers with a page that is not JSON.\<close>

definition provider_accepts :: "string list \<Rightarrow> string \<Rightarrow> error + Response" where
  "provider_accepts earlier url = Inr \<lparr>StatusCode = 200, Body = body_success\<rparr>"

definition provider_rejects :: "string list \<Rightarrow> string \<Rightarrow> error + Response" where
  "provider_rejects earlier url = Inr \<lparr>StatusCode = 200, Body = body_rate_limited\<rparr>"

definition provider_unreachable :: "string list \<Rightarrow> string \<Rightarrow> error + Response" where
  "provider_unreachable earlier url = Inl (Err ''context deadline exceeded'')"

definition provider_garbled :: "string list \<Rightarrow> string \<Rightarrow> error + Response" where
  "provider_garbled earlier url = Inr \<lparr>StatusCode = 502, Body = ''<html>Bad Gateway</html>''\<rparr>"

section \<open>Domain normalisation\<close>

lemma HasSuffix_dot: "HasSuffix s ''.'' \<longleftrightarrow> s \<noteq> [] \<and> last s = CHR ''.''"
proof (cases s rule: rev_cases)
  case Nil
  then show ?thesis by (simp add: HasSuffix_def)
next
  case (snoc ys y)
  then show ?thesis by (simp add: HasSuffix_def)
qed

lemma removeDOT_snoc_dot: "removeDOT (d @ ''.'') = d"
  by (simp add: removeDOT_def TrimSuffix_def HasSuffix_def)

lemma removeDOT_no_dot: "\<not> HasSuffix d ''.'' \<Longrightarrow> removeDOT d = d"
  by (simp add: removeDOT_def)

lemma removeDOT_eq: "removeDOT d = (if d \<noteq> [] \<and> last d = CHR ''.'' then butlast d else d)"
proof (cases d rule: rev_cases)
  case Nil
  then show ?thesis by (simp add: removeDOT_def HasSuffix_def)
next
  case (snoc ys y)
  then show ?thesis by (simp add: removeDOT_def TrimSuffix_def HasSuffix_def)
qed

text \<open>
  C3 (as stated, refuted): the claim says \<open>removeDOT\<close> is idempotent on every string. It
  strips exactly one dot, so on a name that ends in two dots a second application strips
  another one.
\<close>

theorem removeDOT_not_idempotent:
  "removeDOT ''example.com..'' = ''example.com.'' \<and>
   removeDOT (removeDOT ''example.com..'') = ''example.com'' \<and>
   removeDOT (removeDOT ''example.com..'') \<noteq> removeDOT ''example.com..''"
  by (simp add: removeDOT_eq)

text \<open>
  C3 (amended): \<open>removeDOT\<close> strips one trailing dot: applied to \<open>d\<close> followed by a dot it
  returns \<open>d\<close>, for every string \<open>d\<close>. A second application changes nothing exactly when
  \<open>d\<close> does not end in two dots; in particular \<open>removeDOT\<close> is idempotent on every name
  with at most one trailing dot.
\<close>

theorem removeDOT_strips_one_dot:
  "removeDOT (d @ ''.'') = d \<and>
   (removeDOT (removeDOT d) = removeDOT d \<longleftrightarrow> \<not> HasSuffix d ''..'')"
proof (intro conjI)
  show "removeDOT (d @ ''.'') = d"
    by (rule removeDOT_snoc_dot)
next
  show "removeDOT (removeDOT d) = removeDOT d \<longleftrightarrow> \<not> HasSuffix d ''..''"
  proof (cases d rule: rev_cases)
    case Nil
    then show ?thesis by (simp add: removeDOT_eq HasSuffix_def)
  next
    case outer: (snoc ys y)
    show ?thesis
    proof (cases ys rule: rev_cases)
      case Nil
      with outer show ?thesis by (simp add: removeDOT_eq HasSuffix_def)
    next
      case (snoc zs z)
      with outer have d: "d = zs @ [z, y]" by simp
      have "removeDOT d = (if y = CHR ''.'' then zs @ [z] else d)"
        by (simp add: d removeDOT_eq butlast_append)
      moreover have "removeDOT (zs @ [z]) = (if z = CHR ''.'' then zs else zs @ [z])"
        by (simp add: removeDOT_eq)
      moreover have "HasSuffix d ''..'' \<longleftrightarrow> z = CHR ''.'' \<and> y = CHR ''.''"
        by (simp add: d HasSuffix_def)
      ultimately show ?thesis by (auto simp: d)
    qed
  qed
qed

section \<open>The worked world, evaluated\<close>

lemma example_loadConfig:
  "loadConfig (example_env p) (Config example_challenge) = Inr example_config"
  by (simp add: loadConfig_def example_env_def example_challenge_def example_unmarshal_def)

lemma example_getAPIKey:
  "getAPIKey (example_env p) example_config (ResourceNamespace example_challenge) = Inr ''s3cr3t''"
  by (simp add: getAPIKey_def example_env_def example_challenge_def example_config_def
      example_secrets_def)

lemma example_removeDOT:
  "removeDOT (ResolvedFQDN example_challenge) = ''_acme-challenge.example.com''"
  by (simp add: example_challenge_def removeDOT_eq)

section \<open>Configuration decoding\<close>

text \<open>
  C5: \<open>loadConfig\<close> applied to an absent configuration payload (the nil pointer) returns
  the zero-value configuration and no error; applied to a payload that the JSON decoder
  rejects it returns an error, the decoder's text behind
  \<open>error decoding solver config:\<close>, and no configuration.
\<close>

theorem loadConfig_nil_and_malformed:
  "loadConfig E None = Inr \<lparr>APITokenSecretRef = \<lparr>RefName = [], RefKey = []\<rparr>\<rparr> \<and>
   (\<forall>raw e. json_Unmarshal E raw = Inl e \<longrightarrow>
      loadConfig E (Some raw) = Inl (Err (''error decoding solver config: '' @ text_of e)))"
  by (simp add: loadConfig_def zero_config_def)

theorem loadConfig_malformed_instance:
  "json_Unmarshal (example_env provider_accepts) ''{'' = Inl (Err ''unexpected end of JSON input'') \<and>
   loadConfig (example_env provider_accepts) (Some ''{'') =
     Inl (Err ''error decoding solver config: unexpected end of JSON input'')"
proof -
  have h: "json_Unmarshal (example_env provider_accepts) ''{''
             = Inl (Err ''unexpected end of JSON input'')"
    by (simp add: example_env_def example_unmarshal_def example_config_json_def)
  from loadConfig_nil_and_malformed [of "example_env provider_accepts"] h
  have "loadConfig (example_env provider_accepts) (Some ''{'') =
          Inl (Err (''error decoding solver config: ''
                 @ text_of (Err ''unexpected end of JSON input'')))"
    by blast
  with h show ?thesis by simp
qed

section \<open>Credential resolution\<close>

text \<open>
  C4: when the secret store returns an error for the named secret (the record does not
  exist in the namespace), \<open>getAPIKey\<close> fails with the error \<open>unable to get secret\<close>, which
  carries the secret name and the store's error text; when the record is found and its
  data lacks the requested key, it fails with the error \<open>key ... not found in secret\<close>,
  which carries the key (as \<open>%q\<close> prints it), the secret name and the namespace; the two
  errors are never equal; and when the key is present the bytes stored under it are
  returned as the credential.
\<close>

theorem getAPIKey_outcomes:
  "(\<forall>e. Secrets_Get E namespace (RefName (APITokenSecretRef cfg)) = Inl e \<longrightarrow>
      getAPIKey E cfg namespace =
        Inl (Err (''unable to get secret '' @ BQ @ RefName (APITokenSecretRef cfg) @ BQ
              @ ''; '' @ text_of e))) \<and>
   (\<forall>secData. Secrets_Get E namespace (RefName (APITokenSecretRef cfg)) = Inr secData \<and>
      secData (RefKey (APITokenSecretRef cfg)) = None \<longrightarrow>
      getAPIKey E cfg namespace =
        Inl (Err (''key '' @ strconv_Quote E (RefKey (APITokenSecretRef cfg))
              @ '' not found in secret '' @ DQ @ RefName (APITokenSecretRef cfg)
              @ ''/'' @ namespace @ DQ))) \<and>
   (\<forall>secData secBytes. Secrets_Get E namespace (RefName (APITokenSecretRef cfg)) = Inr secData \<and>
      secData (RefKey (APITokenSecretRef cfg)) = Some secBytes \<longrightarrow>
      getAPIKey E cfg namespace = Inr secBytes) \<and>
   (\<forall>name e quoted name' namespace'.
      Err (''unable to get secret '' @ BQ @ name @ BQ @ ''; '' @ e)
        \<noteq> Err (''key '' @ quoted @ '' not found in secret '' @ DQ @ name' @ ''/''
              @ namespace' @ DQ))"
  by (simp add: getAPIKey_def)

theorem getAPIKey_instances:
  "Secrets_Get (example_env provider_accepts) ''default'' ''dode-credentials''
     = Inl (Err (''secrets '' @ DQ @ ''dode-credentials'' @ DQ @ '' not found'')) \<and>
   Secrets_Get (example_env provider_accepts) ''cert-manager'' ''dode-credentials''
     = Inr [''apiToken'' \<mapsto> ''s3cr3t''] \<and>
   getAPIKey (example_env provider_accepts) example_config ''default''
     = Inl (Err (''unable to get secret '' @ BQ @ ''dode-credentials'' @ BQ @ ''; secrets ''
             @ DQ @ ''dode-credentials'' @ DQ @ '' not found'')) \<and>
   getAPIKey (example_env provider_accepts)
       \<lparr>APITokenSecretRef = \<lparr>RefName = ''dode-credentials'', RefKey = ''password''\<rparr>\<rparr>
       ''cert-manager''
     = Inl (Err (''key '' @ DQ @ ''password'' @ DQ @ '' not found in secret '' @ DQ
             @ ''dode-credentials/cert-manager'' @ DQ)) \<and>
   getAPIKey (example_env provider_accepts) example_config ''cert-manager'' = Inr ''s3cr3t''"
proof -
  let ?E = "example_env provider_accepts"
  let ?other = "\<lparr>APITokenSecretRef = \<lparr>RefName = ''dode-credentials'', RefKey = ''password''\<rparr>\<rparr>"
  have absent: "Secrets_Get ?E ''default'' (RefName (APITokenSecretRef example_config))
                  = Inl (Err (''secrets '' @ DQ @ ''dode-credentials'' @ DQ @ '' not found''))"
    by (simp add: example_env_def example_secrets_def example_config_def quote_plain_def)
  have found: "Secrets_Get ?E ''cert-manager'' ''dode-credentials''
                 = Inr [''apiToken'' \<mapsto> ''s3cr3t'']"
    by (simp add: example_env_def example_secrets_def)
  have q: "strconv_Quote ?E ''password'' = DQ @ ''password'' @ DQ"
    by (simp add: example_env_def quote_plain_def)
  have "getAPIKey ?E example_config ''default''
          = Inl (Err (''unable to get secret '' @ BQ @ ''dode-credentials'' @ BQ @ ''; secrets ''
                  @ DQ @ ''dode-credentials'' @ DQ @ '' not found''))"
    using getAPIKey_outcomes [of ?E "''default''" example_config] absent
    by (simp add: example_config_def)
  moreover have "getAPIKey ?E ?other ''cert-manager''
          = Inl (Err (''key '' @ DQ @ ''password'' @ DQ @ '' not found in secret '' @ DQ
                  @ ''dode-credentials/cert-manager'' @ DQ))"
    using getAPIKey_outcomes [of ?E "''cert-manager''" ?other] found q
    by simp
  moreover have "getAPIKey ?E example_config ''cert-manager'' = Inr ''s3cr3t''"
    using getAPIKey_outcomes [of ?E "''cert-manager''" example_config] found
    by (simp add: example_config_def)
  ultimately show ?thesis using absent found by (simp add: example_config_def)
qed

section \<open>The request\<close>

lemma makeRequest_sent: "snd (makeRequest E method uri sent) = sent @ [DodeAPIURL @ uri]"
  by (simp add: makeRequest_def Let_def)

lemma makeRequest_result:
  "fst (makeRequest E method uri sent) =
     (case http_Get E sent (DodeAPIURL @ uri) of
        Inl err \<Rightarrow>
          Inl (Err (''Error querying DODE API for '' @ method @ '' ''
                @ strconv_Quote E (DodeAPIURL @ uri) @ '' -> '' @ text_of err))
      | Inr resp \<Rightarrow>
          (case json_Decode E (Body resp) of
             Inl err \<Rightarrow> Inl err
           | Inr r \<Rightarrow>
               if Success r then Inr True
               else Inl (Err (''DODE API error for '' @ method @ '' '' @ strconv_Quote E uri
                      @ '' '' @ Error r))))"
  by (simp add: makeRequest_def Let_def split: sum.splits)

lemma Present_resolved:
  assumes "loadConfig E (Config ch) = Inr cfg"
    and "getAPIKey E cfg (ResourceNamespace ch) = Inr apiKey"
  shows "Present E ch sent =
     (case fst (makeRequest E ''GET''
                 (''?token='' @ apiKey @ ''&domain='' @ removeDOT (ResolvedFQDN ch)
                    @ ''&value='' @ Key ch) sent) of
        Inl err \<Rightarrow> Some err | Inr _ \<Rightarrow> None,
      sent @ [DodeAPIURL @ ''?token='' @ apiKey @ ''&domain='' @ removeDOT (ResolvedFQDN ch)
                @ ''&value='' @ Key ch])"
  using assms makeRequest_sent [of E "''GET''" _ sent]
  by (simp add: Present_def split: prod.splits sum.splits) (metis snd_conv)

lemma CleanUp_resolved:
  assumes "loadConfig E (Config ch) = Inr cfg"
    and "getAPIKey E cfg (ResourceNamespace ch) = Inr apiKey"
  shows "CleanUp E ch sent =
     (case fst (makeRequest E ''GET''
                 (''?token='' @ apiKey @ ''&domain='' @ removeDOT (ResolvedFQDN ch)
                    @ ''&action=delete'') sent) of
        Inl err \<Rightarrow> Some err | Inr _ \<Rightarrow> None,
      sent @ [DodeAPIURL @ ''?token='' @ apiKey @ ''&domain='' @ removeDOT (ResolvedFQDN ch)
                @ ''&action=delete''])"
  using assms makeRequest_sent [of E "''GET''" _ sent]
  by (simp add: CleanUp_def split: prod.splits sum.splits) (metis snd_conv)

text \<open>
  C2: with the credential resolved, \<open>Present\<close> hands exactly one URL to \<open>client.Get\<close>:
  the fixed endpoint followed by \<open>?token=\<close> credential \<open>&domain=\<close> normalised name
  \<open>&value=\<close> TXT value; \<open>CleanUp\<close> hands exactly one URL too: the fixed endpoint followed
  by \<open>?token=\<close> credential \<open>&domain=\<close> normalised name \<open>&action=delete\<close>; and what
  \<open>CleanUp\<close> does is the same whatever the TXT value of the challenge, which it never
  reads.
\<close>

theorem request_urls:
  assumes "loadConfig E (Config ch) = Inr cfg"
    and "getAPIKey E cfg (ResourceNamespace ch) = Inr apiKey"
  shows "snd (Present E ch sent) =
           sent @ [''https://www.do.de/api/letsencrypt'' @ ''?token='' @ apiKey @ ''&domain=''
                     @ removeDOT (ResolvedFQDN ch) @ ''&value='' @ Key ch] \<and>
         snd (CleanUp E ch sent) =
           sent @ [''https://www.do.de/api/letsencrypt'' @ ''?token='' @ apiKey @ ''&domain=''
                     @ removeDOT (ResolvedFQDN ch) @ ''&action=delete''] \<and>
         (\<forall>v. CleanUp E (ch\<lparr>Key := v\<rparr>) sent = CleanUp E ch sent)"
proof (intro conjI allI)
  show "snd (Present E ch sent) =
          sent @ [''https://www.do.de/api/letsencrypt'' @ ''?token='' @ apiKey @ ''&domain=''
                    @ removeDOT (ResolvedFQDN ch) @ ''&value='' @ Key ch]"
    by (simp add: Present_resolved [OF assms] DodeAPIURL_def)
next
  show "snd (CleanUp E ch sent) =
          sent @ [''https://www.do.de/api/letsencrypt'' @ ''?token='' @ apiKey @ ''&domain=''
                    @ removeDOT (ResolvedFQDN ch) @ ''&action=delete'']"
    by (simp add: CleanUp_resolved [OF assms] DodeAPIURL_def)
next
  fix v
  show "CleanUp E (ch\<lparr>Key := v\<rparr>) sent = CleanUp E ch sent"
    by (simp add: CleanUp_def split: sum.splits)
qed

theorem request_urls_instance:
  "loadConfig (example_env provider_accepts) (Config example_challenge) = Inr example_config \<and>
   getAPIKey (example_env provider_accepts) example_config (ResourceNamespace example_challenge)
     = Inr ''s3cr3t'' \<and>
   snd (Present (example_env provider_accepts) example_challenge []) =
     [''https://www.do.de/api/letsencrypt?token=s3cr3t&domain=_acme-challenge.example.com&value=txt-value''] \<and>
   snd (CleanUp (example_env provider_accepts) example_challenge []) =
     [''https://www.do.de/api/letsencrypt?token=s3cr3t&domain=_acme-challenge.example.com&action=delete'']"
  using request_urls [OF example_loadConfig example_getAPIKey, of provider_accepts "[]"]
    example_loadConfig [of provider_accepts] example_getAPIKey [of provider_accepts]
  by (simp add: example_removeDOT) (simp add: example_challenge_def)

text \<open>
  C8: when decoding the configuration fails, or the configuration is decoded and resolving
  the credential fails, \<open>Present\<close> and \<open>CleanUp\<close> return that very error and the list of
  URLs handed to \<open>client.Get\<close> is unchanged: no request is issued.
\<close>

theorem no_request_before_credential:
  "(\<forall>e. loadConfig E (Config ch) = Inl e \<longrightarrow>
      Present E ch sent = (Some e, sent) \<and> CleanUp E ch sent = (Some e, sent)) \<and>
   (\<forall>cfg e. loadConfig E (Config ch) = Inr cfg \<and>
      getAPIKey E cfg (ResourceNamespace ch) = Inl e \<longrightarrow>
      Present E ch sent = (Some e, sent) \<and> CleanUp E ch sent = (Some e, sent))"
  by (simp add: Present_def CleanUp_def)

theorem no_request_before_credential_instances:
  "loadConfig (example_env provider_accepts) (Config (example_challenge\<lparr>Config := Some ''{''\<rparr>))
     = Inl (Err ''error decoding solver config: unexpected end of JSON input'') \<and>
   Present (example_env provider_accepts) (example_challenge\<lparr>Config := Some ''{''\<rparr>) []
     = (Some (Err ''error decoding solver config: unexpected end of JSON input''), []) \<and>
   CleanUp (example_env provider_accepts) (example_challenge\<lparr>Config := Some ''{''\<rparr>) []
     = (Some (Err ''error decoding solver config: unexpected end of JSON input''), []) \<and>
   loadConfig (example_env provider_accepts)
       (Config (example_challenge\<lparr>ResourceNamespace := ''default''\<rparr>)) = Inr example_config \<and>
   getAPIKey (example_env provider_accepts) example_config
       (ResourceNamespace (example_challenge\<lparr>ResourceNamespace := ''default''\<rparr>))
     = Inl (Err (''unable to get secret '' @ BQ @ ''dode-credentials'' @ BQ @ ''; secrets ''
             @ DQ @ ''dode-credentials'' @ DQ @ '' not found'')) \<and>
   Present (example_env provider_accepts) (example_challenge\<lparr>ResourceNamespace := ''default''\<rparr>) []
     = (Some (Err (''unable to get secret '' @ BQ @ ''dode-credentials'' @ BQ @ ''; secrets ''
             @ DQ @ ''dode-credentials'' @ DQ @ '' not found'')), []) \<and>
   CleanUp (example_env provider_accepts) (example_challenge\<lparr>ResourceNamespace := ''default''\<rparr>) []
     = (Some (Err (''unable to get secret '' @ BQ @ ''dode-credentials'' @ BQ @ ''; secrets ''
             @ DQ @ ''dode-credentials'' @ DQ @ '' not found'')), [])"
proof -
  let ?E = "example_env provider_accepts"
  let ?bad = "example_challenge\<lparr>Config := Some ''{''\<rparr>"
  let ?far = "example_challenge\<lparr>ResourceNamespace := ''default''\<rparr>"
  have a: "loadConfig ?E (Config ?bad)
             = Inl (Err ''error decoding solver config: unexpected end of JSON input'')"
    by (simp add: loadConfig_def example_env_def example_unmarshal_def example_config_json_def)
  have b: "loadConfig ?E (Config ?far) = Inr example_config"
    using example_loadConfig [of provider_accepts] by (simp add: example_challenge_def)
  have c: "getAPIKey ?E example_config (ResourceNamespace ?far)
             = Inl (Err (''unable to get secret '' @ BQ @ ''dode-credentials'' @ BQ @ ''; secrets ''
                     @ DQ @ ''dode-credentials'' @ DQ @ '' not found''))"
    by (simp add: getAPIKey_def example_env_def example_secrets_def example_config_def
        quote_plain_def)
  from no_request_before_credential [of ?E ?bad "[]"] a
  have 1: "Present ?E ?bad [] = (Some (Err ''error decoding solver config: unexpected end of JSON input''), [])
         \<and> CleanUp ?E ?bad [] = (Some (Err ''error decoding solver config: unexpected end of JSON input''), [])"
    by blast
  from no_request_before_credential [of ?E ?far "[]"] b c
  have 2: "Present ?E ?far [] = (Some (Err (''unable to get secret '' @ BQ @ ''dode-credentials'' @ BQ @ ''; secrets ''
                     @ DQ @ ''dode-credentials'' @ DQ @ '' not found'')), [])
         \<and> CleanUp ?E ?far [] = (Some (Err (''unable to get secret '' @ BQ @ ''dode-credentials'' @ BQ @ ''; secrets ''
                     @ DQ @ ''dode-credentials'' @ DQ @ '' not found'')), [])"
    by blast
  from a b c 1 2 show ?thesis by blast
qed

section \<open>Interpreting the provider's answer\<close>

lemma sublist_last_of_five: "sublist x (a @ b @ c @ d @ e @ x)"
  by (metis append_assoc sublist_append_leftI)

lemma sublist_last_of_six: "sublist x (a @ b @ c @ d @ e @ f @ x)"
  by (metis append_assoc sublist_append_leftI)

lemma makeRequest_transport_failure:
  assumes "http_Get E sent (DodeAPIURL @ uri) = Inl e"
  shows "\<exists>err. fst (makeRequest E method uri sent) = Inl err \<and> sublist (text_of e) (text_of err)"
proof -
  have "fst (makeRequest E method uri sent) =
          Inl (Err (''Error querying DODE API for '' @ method @ '' ''
                @ strconv_Quote E (DodeAPIURL @ uri) @ '' -> '' @ text_of e))"
    using assms by (simp add: makeRequest_result)
  moreover have "sublist (text_of e)
      (text_of (Err (''Error querying DODE API for '' @ method @ '' ''
                @ strconv_Quote E (DodeAPIURL @ uri) @ '' -> '' @ text_of e)))"
    unfolding error.sel by (rule sublist_last_of_five)
  ultimately show ?thesis by blast
qed

lemma makeRequest_undecodable:
  assumes "http_Get E sent (DodeAPIURL @ uri) = Inr resp"
    and "json_Decode E (Body resp) = Inl e"
  shows "fst (makeRequest E method uri sent) = Inl e"
  using assms by (simp add: makeRequest_result)

lemma makeRequest_rejected:
  assumes "http_Get E sent (DodeAPIURL @ uri) = Inr resp"
    and "json_Decode E (Body resp) = Inr r"
    and "\<not> Success r"
  shows "\<exists>err. fst (makeRequest E method uri sent) = Inl err \<and> sublist (Error r) (text_of err)"
proof -
  have "fst (makeRequest E method uri sent) =
          Inl (Err (''DODE API error for '' @ method @ '' '' @ strconv_Quote E uri
                @ '' '' @ Error r))"
    using assms by (simp add: makeRequest_result)
  moreover have "sublist (Error r)
      (text_of (Err (''DODE API error for '' @ method @ '' '' @ strconv_Quote E uri
                @ '' '' @ Error r)))"
    unfolding error.sel by (rule sublist_last_of_five)
  ultimately show ?thesis by blast
qed

lemma makeRequest_success_iff:
  "(\<exists>ok. fst (makeRequest E method uri sent) = Inr ok) \<longleftrightarrow>
     (\<exists>resp r. http_Get E sent (DodeAPIURL @ uri) = Inr resp \<and>
        json_Decode E (Body resp) = Inr r \<and> Success r)"
  by (auto simp: makeRequest_result split: sum.splits if_splits)

lemma outcome_of_makeRequest:
  fixes E verb uri sent
  defines "outcome \<equiv> (case fst (makeRequest E verb uri sent) of
                        Inl err \<Rightarrow> Some err | Inr _ \<Rightarrow> None)"
  shows "(\<forall>e. http_Get E sent (DodeAPIURL @ uri) = Inl e \<longrightarrow>
            (\<exists>err. outcome = Some err \<and> sublist (text_of e) (text_of err))) \<and>
         (\<forall>resp e. http_Get E sent (DodeAPIURL @ uri) = Inr resp \<and>
            json_Decode E (Body resp) = Inl e \<longrightarrow> outcome = Some e) \<and>
         (\<forall>resp r. http_Get E sent (DodeAPIURL @ uri) = Inr resp \<and>
            json_Decode E (Body resp) = Inr r \<and> \<not> Success r \<longrightarrow>
            (\<exists>err. outcome = Some err \<and> sublist (Error r) (text_of err))) \<and>
         (outcome = None \<longleftrightarrow>
            (\<exists>resp r. http_Get E sent (DodeAPIURL @ uri) = Inr resp \<and>
               json_Decode E (Body resp) = Inr r \<and> Success r))"
proof (intro conjI allI impI)
  fix e assume "http_Get E sent (DodeAPIURL @ uri) = Inl e"
  from makeRequest_transport_failure [OF this, of verb]
  show "\<exists>err. outcome = Some err \<and> sublist (text_of e) (text_of err)"
    by (auto simp: outcome_def)
next
  fix resp e
  assume "http_Get E sent (DodeAPIURL @ uri) = Inr resp \<and> json_Decode E (Body resp) = Inl e"
  then show "outcome = Some e"
    by (simp add: outcome_def makeRequest_undecodable)
next
  fix resp r
  assume "http_Get E sent (DodeAPIURL @ uri) = Inr resp \<and>
          json_Decode E (Body resp) = Inr r \<and> \<not> Success r"
  then have "\<exists>err. fst (makeRequest E verb uri sent) = Inl err \<and>
               sublist (Error r) (text_of err)"
    by (blast intro: makeRequest_rejected)
  then show "\<exists>err. outcome = Some err \<and> sublist (Error r) (text_of err)"
    by (auto simp: outcome_def)
next
  have "outcome = None \<longleftrightarrow> (\<exists>ok. fst (makeRequest E verb uri sent) = Inr ok)"
    by (simp add: outcome_def split: sum.splits)
  then show "outcome = None \<longleftrightarrow>
      (\<exists>resp r. http_Get E sent (DodeAPIURL @ uri) = Inr resp \<and>
         json_Decode E (Body resp) = Inr r \<and> Success r)"
    by (simp only: makeRequest_success_iff)
qed

text \<open>
  C1: with the credential resolved, \<open>Present\<close> and \<open>CleanUp\<close> interpret the provider's
  answer alike. If the transport fails the operation returns an error whose text includes
  the transport's error text; if the body does not decode, it returns the decoder's
  error; if the body decodes with \<open>success\<close> false, it returns an error whose text
  includes the provider's reported error text (the field \<open>error\<close>); and it returns no
  error if and only if the request went through and the body decoded with \<open>success\<close> true.
\<close>

theorem response_interpretation:
  assumes "loadConfig E (Config ch) = Inr cfg"
    and "getAPIKey E cfg (ResourceNamespace ch) = Inr apiKey"
  shows "\<forall>(operation, uri) \<in>
            {(Present, ''?token='' @ apiKey @ ''&domain='' @ removeDOT (ResolvedFQDN ch)
                         @ ''&value='' @ Key ch),
             (CleanUp, ''?token='' @ apiKey @ ''&domain='' @ removeDOT (ResolvedFQDN ch)
                         @ ''&action=delete'')}.
          (\<forall>e. http_Get E sent (DodeAPIURL @ uri) = Inl e \<longrightarrow>
             (\<exists>err. fst (operation E ch sent) = Some err \<and>
                sublist (text_of e) (text_of err))) \<and>
          (\<forall>resp e. http_Get E sent (DodeAPIURL @ uri) = Inr resp \<and>
             json_Decode E (Body resp) = Inl e \<longrightarrow>
             fst (operation E ch sent) = Some e) \<and>
          (\<forall>resp r. http_Get E sent (DodeAPIURL @ uri) = Inr resp \<and>
             json_Decode E (Body resp) = Inr r \<and> \<not> Success r \<longrightarrow>
             (\<exists>err. fst (operation E ch sent) = Some err \<and>
                sublist (Error r) (text_of err))) \<and>
          (fst (operation E ch sent) = None \<longleftrightarrow>
             (\<exists>resp r. http_Get E sent (DodeAPIURL @ uri) = Inr resp \<and>
                json_Decode E (Body resp) = Inr r \<and> Success r))"
proof -
  have p: "fst (Present E ch sent) =
      (case fst (makeRequest E ''GET''
                  (''?token='' @ apiKey @ ''&domain='' @ removeDOT (ResolvedFQDN ch)
                     @ ''&value='' @ Key ch) sent) of
         Inl err \<Rightarrow> Some err | Inr _ \<Rightarrow> None)"
    by (simp add: Present_resolved [OF assms])
  have c: "fst (CleanUp E ch sent) =
      (case fst (makeRequest E ''GET''
                  (''?token='' @ apiKey @ ''&domain='' @ removeDOT (ResolvedFQDN ch)
                     @ ''&action=delete'') sent) of
         Inl err \<Rightarrow> Some err | Inr _ \<Rightarrow> None)"
    by (simp add: CleanUp_resolved [OF assms])
  show ?thesis
    unfolding Ball_def
  proof (intro allI impI)
    fix x :: "(env \<Rightarrow> ChallengeRequest \<Rightarrow> string list \<Rightarrow> error option \<times> string list) \<times> string"
    assume "x \<in> {(Present, ''?token='' @ apiKey @ ''&domain='' @ removeDOT (ResolvedFQDN ch)
                         @ ''&value='' @ Key ch),
             (CleanUp, ''?token='' @ apiKey @ ''&domain='' @ removeDOT (ResolvedFQDN ch)
                         @ ''&action=delete'')}"
    then consider
        "x = (Present, ''?token='' @ apiKey @ ''&domain='' @ removeDOT (ResolvedFQDN ch)
                         @ ''&value='' @ Key ch)"
      | "x = (CleanUp, ''?token='' @ apiKey @ ''&domain='' @ removeDOT (ResolvedFQDN ch)
                         @ ''&action=delete'')"
      by blast
    then show "case x of (operation, uri) \<Rightarrow>
          (\<forall>e. http_Get E sent (DodeAPIURL @ uri) = Inl e \<longrightarrow>
             (\<exists>err. fst (operation E ch sent) = Some err \<and>
                sublist (text_of e) (text_of err))) \<and>
          (\<forall>resp e. http_Get E sent (DodeAPIURL @ uri) = Inr resp \<and>
             json_Decode E (Body resp) = Inl e \<longrightarrow>
             fst (operation E ch sent) = Some e) \<and>
          (\<forall>resp r. http_Get E sent (DodeAPIURL @ uri) = Inr resp \<and>
             json_Decode E (Body resp) = Inr r \<and> \<not> Success r \<longrightarrow>
             (\<exists>err. fst (operation E ch sent) = Some err \<and>
                sublist (Error r) (text_of err))) \<and>
          (fst (operation E ch sent) = None \<longleftrightarrow>
             (\<exists>resp r. http_Get E sent (DodeAPIURL @ uri) = Inr resp \<and>
                json_Decode E (Body resp) = Inr r \<and> Success r))"
    proof cases
      case 1
      show ?thesis
        unfolding 1 prod.case p by (rule outcome_of_makeRequest)
    next
      case 2
      show ?thesis
        unfolding 2 prod.case c by (rule outcome_of_makeRequest)
    qed
  qed
qed

theorem response_interpretation_instances:
  "loadConfig (example_env provider_rejects) (Config example_challenge) = Inr example_config \<and>
   getAPIKey (example_env provider_rejects) example_config (ResourceNamespace example_challenge)
     = Inr ''s3cr3t'' \<and>
   (\<exists>err. fst (Present (example_env provider_rejects) example_challenge []) = Some err \<and>
      sublist ''rate limited'' (text_of err)) \<and>
   fst (Present (example_env provider_accepts) example_challenge []) = None \<and>
   (\<exists>err. fst (CleanUp (example_env provider_unreachable) example_challenge []) = Some err \<and>
      sublist ''context deadline exceeded'' (text_of err)) \<and>
   fst (CleanUp (example_env provider_garbled) example_challenge [])
     = Some (Err ''invalid character looking for beginning of value'')"
proof -
  have rejected: "\<exists>err. fst (Present (example_env provider_rejects) example_challenge []) = Some err \<and>
      sublist ''rate limited'' (text_of err)"
  proof -
    let ?E = "example_env provider_rejects"
    have g: "http_Get ?E [] u = Inr \<lparr>StatusCode = 200, Body = body_rate_limited\<rparr>" for u
      by (simp add: example_env_def provider_rejects_def)
    have d: "json_Decode ?E (Body \<lparr>StatusCode = 200, Body = body_rate_limited\<rparr>)
               = Inr \<lparr>Success = False, Error = ''rate limited''\<rparr>"
      by (simp add: example_env_def example_decode_def body_rate_limited_def body_success_def
          quote_plain_def)
    from response_interpretation [OF example_loadConfig example_getAPIKey, of provider_rejects "[]"]
      g d
    show ?thesis by fastforce
  qed
  have accepted: "fst (Present (example_env provider_accepts) example_challenge []) = None"
  proof -
    let ?E = "example_env provider_accepts"
    have g: "http_Get ?E [] u = Inr \<lparr>StatusCode = 200, Body = body_success\<rparr>" for u
      by (simp add: example_env_def provider_accepts_def)
    have d: "json_Decode ?E (Body \<lparr>StatusCode = 200, Body = body_success\<rparr>)
               = Inr \<lparr>Success = True, Error = []\<rparr>"
      by (simp add: example_env_def example_decode_def)
    from response_interpretation [OF example_loadConfig example_getAPIKey, of provider_accepts "[]"]
      g d
    show ?thesis by fastforce
  qed
  have unreachable: "\<exists>err. fst (CleanUp (example_env provider_unreachable) example_challenge [])
      = Some err \<and> sublist ''context deadline exceeded'' (text_of err)"
  proof -
    let ?E = "example_env provider_unreachable"
    have g: "http_Get ?E [] u = Inl (Err ''context deadline exceeded'')" for u
      by (simp add: example_env_def provider_unreachable_def)
    from response_interpretation [OF example_loadConfig example_getAPIKey, of provider_unreachable "[]"]
      g
    show ?thesis by fastforce
  qed
  have garbled: "fst (CleanUp (example_env provider_garbled) example_challenge [])
      = Some (Err ''invalid character looking for beginning of value'')"
  proof -
    let ?E = "example_env provider_garbled"
    have g: "http_Get ?E [] u = Inr \<lparr>StatusCode = 502, Body = ''<html>Bad Gateway</html>''\<rparr>" for u
      by (simp add: example_env_def provider_garbled_def)
    have d: "json_Decode ?E (Body \<lparr>StatusCode = 502, Body = ''<html>Bad Gateway</html>''\<rparr>)
               = Inl (Err ''invalid character looking for beginning of value'')"
      by (simp add: example_env_def example_decode_def body_rate_limited_def body_success_def
          quote_plain_def)
    from response_interpretation [OF example_loadConfig example_getAPIKey, of provider_garbled "[]"]
      g d
    show ?thesis by fastforce
  qed
  from rejected accepted unreachable garbled
    example_loadConfig [of provider_rejects] example_getAPIKey [of provider_rejects]
  show ?thesis by blast
qed

section \<open>The status code\<close>

lemma makeRequest_same_bodies:
  assumes "\<forall>earlier url. rel_sum (=) (\<lambda>a b. Body a = Body b) (http_Get E earlier url) (g earlier url)"
  shows "makeRequest (E\<lparr>http_Get := g\<rparr>) verb uri sent = makeRequest E verb uri sent"
proof -
  from assms have "rel_sum (=) (\<lambda>a b. Body a = Body b)
      (http_Get E sent (DodeAPIURL @ uri)) (g sent (DodeAPIURL @ uri))"
    by blast
  then show ?thesis
    by (cases rule: rel_sum.cases) (simp_all add: makeRequest_def Let_def split: sum.splits)
qed

text \<open>
  C9: the status code of the provider's answer is never consulted. Whatever the status
  code, an answer whose body decodes with \<open>success\<close> true makes \<open>makeRequest\<close> return
  \<open>true\<close> and no error; and replacing the provider by one that gives the same errors and
  the same bodies under any other status codes changes nothing in what \<open>Present\<close> and
  \<open>CleanUp\<close> return and request.
\<close>

theorem status_code_ignored:
  "(\<forall>code body r. http_Get E sent (DodeAPIURL @ uri) = Inr \<lparr>StatusCode = code, Body = body\<rparr> \<and>
      json_Decode E body = Inr r \<and> Success r \<longrightarrow>
      fst (makeRequest E verb uri sent) = Inr True) \<and>
   (\<forall>g. (\<forall>earlier url. rel_sum (=) (\<lambda>a b. Body a = Body b) (http_Get E earlier url) (g earlier url)) \<longrightarrow>
      Present (E\<lparr>http_Get := g\<rparr>) ch sent = Present E ch sent \<and>
      CleanUp (E\<lparr>http_Get := g\<rparr>) ch sent = CleanUp E ch sent)"
proof (intro conjI allI impI)
  fix code body r
  assume "http_Get E sent (DodeAPIURL @ uri) = Inr \<lparr>StatusCode = code, Body = body\<rparr> \<and>
          json_Decode E body = Inr r \<and> Success r"
  then show "fst (makeRequest E verb uri sent) = Inr True"
    by (simp add: makeRequest_result)
next
  fix g :: "string list \<Rightarrow> string \<Rightarrow> error + Response"
  assume same: "\<forall>earlier url. rel_sum (=) (\<lambda>a b. Body a = Body b) (http_Get E earlier url) (g earlier url)"
  have l: "loadConfig (E\<lparr>http_Get := g\<rparr>) c = loadConfig E c" for c
    by (simp add: loadConfig_def cong: option.case_cong sum.case_cong)
  have k: "getAPIKey (E\<lparr>http_Get := g\<rparr>) cfg ns = getAPIKey E cfg ns" for cfg ns
    by (simp add: getAPIKey_def cong: option.case_cong sum.case_cong)
  show "Present (E\<lparr>http_Get := g\<rparr>) ch sent = Present E ch sent"
    by (simp add: Present_def l k makeRequest_same_bodies [OF same] cong: sum.case_cong)
  show "CleanUp (E\<lparr>http_Get := g\<rparr>) ch sent = CleanUp E ch sent"
    by (simp add: CleanUp_def l k makeRequest_same_bodies [OF same] cong: sum.case_cong)
qed

theorem status_code_ignored_instance:
  "http_Get (example_env (\<lambda>earlier url. Inr \<lparr>StatusCode = 500, Body = body_success\<rparr>)) []
       (DodeAPIURL @ ''?token=s3cr3t&domain=_acme-challenge.example.com&value=txt-value'')
     = Inr \<lparr>StatusCode = 500, Body = body_success\<rparr> \<and>
   json_Decode (example_env (\<lambda>earlier url. Inr \<lparr>StatusCode = 500, Body = body_success\<rparr>))
       body_success = Inr \<lparr>Success = True, Error = []\<rparr> \<and>
   fst (makeRequest (example_env (\<lambda>earlier url. Inr \<lparr>StatusCode = 500, Body = body_success\<rparr>))
         ''GET'' ''?token=s3cr3t&domain=_acme-challenge.example.com&value=txt-value'' [])
     = Inr True \<and>
   Present (example_env (\<lambda>earlier url. Inr \<lparr>StatusCode = 500, Body = body_success\<rparr>))
       example_challenge []
     = Present (example_env provider_accepts) example_challenge []"
proof -
  let ?g = "\<lambda>(earlier :: string list) (url :: string). Inr \<lparr>StatusCode = 500, Body = body_success\<rparr>
              :: error + Response"
  let ?uri = "''?token=s3cr3t&domain=_acme-challenge.example.com&value=txt-value''"
  have a: "http_Get (example_env ?g) [] (DodeAPIURL @ ?uri)
             = Inr \<lparr>StatusCode = 500, Body = body_success\<rparr>"
    by (simp add: example_env_def)
  have b: "json_Decode (example_env ?g) body_success = Inr \<lparr>Success = True, Error = []\<rparr>"
    by (simp add: example_env_def example_decode_def)
  have c: "fst (makeRequest (example_env ?g) ''GET'' ?uri []) = Inr True"
    using status_code_ignored [of "example_env ?g" "[]" ?uri "''GET''"] a b by simp
  have same: "\<forall>earlier url. rel_sum (=) (\<lambda>a b. Body a = Body b)
                 (http_Get (example_env provider_accepts) earlier url) (?g earlier url)"
    by (simp add: example_env_def provider_accepts_def)
  have e: "(example_env provider_accepts)\<lparr>http_Get := ?g\<rparr> = example_env ?g"
    by (simp add: example_env_def)
  have "Present ((example_env provider_accepts)\<lparr>http_Get := ?g\<rparr>) example_challenge []
          = Present (example_env provider_accepts) example_challenge []"
    using status_code_ignored [of "example_env provider_accepts" "[]" ?uri "''GET''" example_challenge,
        THEN conjunct2, THEN spec, THEN mp, OF same]
    by (rule conjunct1)
  then have d: "Present (example_env ?g) example_challenge []
             = Present (example_env provider_accepts) example_challenge []"
    by (simp only: e)
  from a b c d show ?thesis by blast
qed

section \<open>Repeated calls\<close>

lemma makeRequest_fixed_provider:
  assumes "\<forall>earlier earlier' url. http_Get E earlier url = http_Get E earlier' url"
  shows "fst (makeRequest E verb uri s) = fst (makeRequest E verb uri s')"
proof -
  from assms have "http_Get E s (DodeAPIURL @ uri) = http_Get E s' (DodeAPIURL @ uri)"
    by blast
  then show ?thesis by (simp add: makeRequest_result)
qed

text \<open>
  C6: let the provider be a fixed response function of the request (its answer to a URL
  does not depend on the requests issued earlier). Then calling \<open>Present\<close> a second time
  with the same challenge, after the first call, returns what the first call returned;
  more generally what \<open>Present\<close> returns does not depend on the requests issued before.
\<close>

theorem Present_repeatable:
  assumes "\<forall>earlier earlier' url. http_Get E earlier url = http_Get E earlier' url"
  shows "fst (Present E ch (snd (Present E ch sent))) = fst (Present E ch sent) \<and>
         (\<forall>s s'. fst (Present E ch s) = fst (Present E ch s'))"
proof -
  have indep: "fst (Present E ch s) = fst (Present E ch s')" for s s'
  proof (cases "loadConfig E (Config ch)")
    case (Inl e)
    then show ?thesis by (simp add: Present_def)
  next
    case cfg: (Inr cfg)
    show ?thesis
    proof (cases "getAPIKey E cfg (ResourceNamespace ch)")
      case (Inl e)
      with cfg show ?thesis by (simp add: Present_def)
    next
      case (Inr apiKey)
      show ?thesis
        by (simp add: Present_resolved [OF cfg Inr] makeRequest_fixed_provider [OF assms, of _ _ s s'])
    qed
  qed
  then show ?thesis by blast
qed

theorem Present_repeatable_instance:
  "(\<forall>earlier earlier' url. http_Get (example_env provider_rejects) earlier url
       = http_Get (example_env provider_rejects) earlier' url) \<and>
   fst (Present (example_env provider_rejects) example_challenge
         (snd (Present (example_env provider_rejects) example_challenge [])))
     = fst (Present (example_env provider_rejects) example_challenge []) \<and>
   snd (Present (example_env provider_rejects) example_challenge
         (snd (Present (example_env provider_rejects) example_challenge [])))
     = [''https://www.do.de/api/letsencrypt?token=s3cr3t&domain=_acme-challenge.example.com&value=txt-value'',
        ''https://www.do.de/api/letsencrypt?token=s3cr3t&domain=_acme-challenge.example.com&value=txt-value'']"
proof -
  let ?E = "example_env provider_rejects"
  have fixed: "\<forall>earlier earlier' url. http_Get ?E earlier url = http_Get ?E earlier' url"
    by (simp add: example_env_def provider_rejects_def)
  have twice: "snd (Present ?E example_challenge (snd (Present ?E example_challenge [])))
     = [''https://www.do.de/api/letsencrypt?token=s3cr3t&domain=_acme-challenge.example.com&value=txt-value'',
        ''https://www.do.de/api/letsencrypt?token=s3cr3t&domain=_acme-challenge.example.com&value=txt-value'']"
    by (simp add: Present_resolved [OF example_loadConfig example_getAPIKey] example_removeDOT
        DodeAPIURL_def) (simp add: example_challenge_def)
  from Present_repeatable [OF fixed, of example_challenge "[]"] fixed twice
  show ?thesis by blast
qed

section \<open>The query string\<close>

lemma sublist_second_of_six: "sublist x (a @ b @ x @ c @ d @ e)"
  by (metis append_assoc sublist_appendI)

lemma sublist_fourth_of_six: "sublist x (a @ b @ c @ d @ x @ e)"
  by (metis append_assoc sublist_appendI)

lemma removeDOT_query_tail:
  assumes "\<not> HasSuffix v ''.''"
  shows "removeDOT (d @ ''&value='' @ v) = d @ ''&value='' @ v"
proof (rule removeDOT_no_dot)
  from assms show "\<not> HasSuffix (d @ ''&value='' @ v) ''.''"
    by (cases v rule: rev_cases) (simp_all add: HasSuffix_dot)
qed

text \<open>
  C10: the query string is the plain concatenation of its parts, nothing is URL-encoded:
  with the credential resolved, the credential, the normalised name and the TXT value
  stand unchanged, as contiguous substrings, in the URL that \<open>Present\<close> requests, and the
  credential and the normalised name in the URL that \<open>CleanUp\<close> requests, whatever
  characters they contain. So the query string is ambiguous: a name \<open>d&value=v\<close> with the
  TXT value \<open>w\<close> and the name \<open>d\<close> with the TXT value \<open>v&value=w\<close> (neither \<open>d\<close> nor \<open>v\<close>
  ending in a dot) make \<open>Present\<close> issue the same request and return the same result.
\<close>

theorem query_string_not_encoded:
  assumes "loadConfig E (Config ch) = Inr cfg"
    and "getAPIKey E cfg (ResourceNamespace ch) = Inr apiKey"
  shows "sublist apiKey (last (snd (Present E ch sent))) \<and>
         sublist (removeDOT (ResolvedFQDN ch)) (last (snd (Present E ch sent))) \<and>
         sublist (Key ch) (last (snd (Present E ch sent))) \<and>
         sublist apiKey (last (snd (CleanUp E ch sent))) \<and>
         sublist (removeDOT (ResolvedFQDN ch)) (last (snd (CleanUp E ch sent))) \<and>
         (\<forall>d v w. \<not> HasSuffix d ''.'' \<and> \<not> HasSuffix v ''.'' \<longrightarrow>
            Present E (ch\<lparr>ResolvedFQDN := d @ ''&value='' @ v, Key := w\<rparr>) sent
              = Present E (ch\<lparr>ResolvedFQDN := d, Key := v @ ''&value='' @ w\<rparr>) sent)"
proof -
  have p: "last (snd (Present E ch sent)) =
      DodeAPIURL @ ''?token='' @ apiKey @ ''&domain='' @ removeDOT (ResolvedFQDN ch)
        @ ''&value='' @ Key ch"
    by (simp add: Present_resolved [OF assms])
  have c: "last (snd (CleanUp E ch sent)) =
      DodeAPIURL @ ''?token='' @ apiKey @ ''&domain='' @ removeDOT (ResolvedFQDN ch)
        @ ''&action=delete'' @ []"
    by (simp add: CleanUp_resolved [OF assms])
  have collide: "Present E (ch\<lparr>ResolvedFQDN := d @ ''&value='' @ v, Key := w\<rparr>) sent
              = Present E (ch\<lparr>ResolvedFQDN := d, Key := v @ ''&value='' @ w\<rparr>) sent"
    if "\<not> HasSuffix d ''.'' \<and> \<not> HasSuffix v ''.''" for d v w
  proof -
    from that have "removeDOT (d @ ''&value='' @ v) = d @ ''&value='' @ v"
      by (blast intro: removeDOT_query_tail)
    moreover from that have "removeDOT d = d"
      by (blast intro: removeDOT_no_dot)
    ultimately show ?thesis
      by (simp add: Present_def cong: sum.case_cong)
  qed
  show ?thesis
    unfolding p c
    by (intro conjI allI impI sublist_second_of_six sublist_fourth_of_six sublist_last_of_six
        collide) blast+
qed

theorem query_string_not_encoded_instance:
  "loadConfig (example_env provider_accepts) (Config example_challenge) = Inr example_config \<and>
   getAPIKey (example_env provider_accepts) example_config (ResourceNamespace example_challenge)
     = Inr ''s3cr3t'' \<and>
   \<not> HasSuffix ''example.com'' ''.'' \<and> \<not> HasSuffix ''a'' ''.'' \<and>
   Present (example_env provider_accepts)
       (example_challenge\<lparr>ResolvedFQDN := ''example.com&value=a'', Key := ''b''\<rparr>) []
     = Present (example_env provider_accepts)
         (example_challenge\<lparr>ResolvedFQDN := ''example.com'', Key := ''a&value=b''\<rparr>) [] \<and>
   snd (Present (example_env provider_accepts)
         (example_challenge\<lparr>ResolvedFQDN := ''example.com'', Key := ''a&value=b''\<rparr>) [])
     = [''https://www.do.de/api/letsencrypt?token=s3cr3t&domain=example.com&value=a&value=b'']"
proof -
  let ?E = "example_env provider_accepts"
  have a: "\<not> HasSuffix ''example.com'' ''.'' \<and> \<not> HasSuffix ''a'' ''.''"
    by (simp add: HasSuffix_def)
  have l: "loadConfig ?E (Config (example_challenge\<lparr>ResolvedFQDN := ''example.com'', Key := ''a&value=b''\<rparr>))
             = Inr example_config"
    using example_loadConfig [of provider_accepts] by simp
  have k: "getAPIKey ?E example_config
             (ResourceNamespace (example_challenge\<lparr>ResolvedFQDN := ''example.com'', Key := ''a&value=b''\<rparr>))
             = Inr ''s3cr3t''"
    using example_getAPIKey [of provider_accepts] by simp
  have u: "snd (Present ?E (example_challenge\<lparr>ResolvedFQDN := ''example.com'', Key := ''a&value=b''\<rparr>) [])
     = [''https://www.do.de/api/letsencrypt?token=s3cr3t&domain=example.com&value=a&value=b'']"
    by (simp add: Present_resolved [OF l k] DodeAPIURL_def removeDOT_eq)
  from query_string_not_encoded [OF example_loadConfig example_getAPIKey, of provider_accepts "[]"] a
  have "Present ?E (example_challenge\<lparr>ResolvedFQDN := ''example.com'' @ ''&value='' @ ''a'', Key := ''b''\<rparr>) []
          = Present ?E (example_challenge\<lparr>ResolvedFQDN := ''example.com'', Key := ''a'' @ ''&value='' @ ''b''\<rparr>) []"
    by blast
  then have "Present ?E (example_challenge\<lparr>ResolvedFQDN := ''example.com&value=a'', Key := ''b''\<rparr>) []
          = Present ?E (example_challenge\<lparr>ResolvedFQDN := ''example.com'', Key := ''a&value=b''\<rparr>) []"
    by simp
  with a u example_loadConfig [of provider_accepts] example_getAPIKey [of provider_accepts]
  show ?thesis by blast
qed

section \<open>What the returned errors say\<close>

lemma example_Present_rejected:
  "fst (Present (example_env provider_rejects) example_challenge [])
     = Some (Err (''DODE API error for GET '' @ DQ
               @ ''?token=s3cr3t&domain=_acme-challenge.example.com&value=txt-value'' @ DQ
               @ '' rate limited''))"
  by (simp add: Present_resolved [OF example_loadConfig example_getAPIKey] example_removeDOT
      makeRequest_result)
    (simp add: example_env_def provider_rejects_def example_decode_def body_rate_limited_def
      body_success_def quote_plain_def example_challenge_def)

lemma example_CleanUp_unreachable:
  "fst (CleanUp (example_env provider_unreachable) example_challenge [])
     = Some (Err (''Error querying DODE API for GET '' @ DQ
               @ ''https://www.do.de/api/letsencrypt?token=s3cr3t&domain=_acme-challenge.example.com&action=delete''
               @ DQ @ '' -> context deadline exceeded''))"
  by (simp add: CleanUp_resolved [OF example_loadConfig example_getAPIKey] example_removeDOT
      makeRequest_result)
    (simp add: example_env_def provider_unreachable_def quote_plain_def DodeAPIURL_def)

lemma loadConfig_error_form:
  assumes "loadConfig E c = Inl err"
  shows "\<exists>raw e. c = Some raw \<and> json_Unmarshal E raw = Inl e \<and>
           err = Err (''error decoding solver config: '' @ text_of e)"
  using assms by (auto simp: loadConfig_def split: option.splits sum.splits)

lemma getAPIKey_error_form:
  assumes "getAPIKey E cfg namespace = Inl err"
  shows "(\<exists>e. Secrets_Get E namespace (RefName (APITokenSecretRef cfg)) = Inl e \<and>
            err = Err (''unable to get secret '' @ BQ @ RefName (APITokenSecretRef cfg) @ BQ
                    @ ''; '' @ text_of e)) \<or>
         (\<exists>secData. Secrets_Get E namespace (RefName (APITokenSecretRef cfg)) = Inr secData \<and>
            secData (RefKey (APITokenSecretRef cfg)) = None \<and>
            err = Err (''key '' @ strconv_Quote E (RefKey (APITokenSecretRef cfg))
                    @ '' not found in secret '' @ DQ @ RefName (APITokenSecretRef cfg)
                    @ ''/'' @ namespace @ DQ))"
  using assms by (auto simp: getAPIKey_def Let_def split: option.splits sum.splits)

lemma makeRequest_error_form:
  assumes "fst (makeRequest E verb uri sent) = Inl err"
  shows "(\<exists>e. http_Get E sent (DodeAPIURL @ uri) = Inl e \<and>
            err = Err (''Error querying DODE API for '' @ verb @ '' ''
                    @ strconv_Quote E (DodeAPIURL @ uri) @ '' -> '' @ text_of e)) \<or>
         (\<exists>resp. http_Get E sent (DodeAPIURL @ uri) = Inr resp \<and>
            json_Decode E (Body resp) = Inl err) \<or>
         (\<exists>resp r. http_Get E sent (DodeAPIURL @ uri) = Inr resp \<and>
            json_Decode E (Body resp) = Inr r \<and> \<not> Success r \<and>
            err = Err (''DODE API error for '' @ verb @ '' '' @ strconv_Quote E uri
                    @ '' '' @ Error r))"
  using assms by (auto simp: makeRequest_result split: sum.splits if_splits)

text \<open>
  C7 (as stated, refuted): the claim says the resolved credential never appears in a
  returned error message. The two errors that \<open>makeRequest\<close> composes print the request
  URL or URI, and the credential is its \<open>token\<close> parameter: when the provider rejects the
  request of \<open>Present\<close>, and when the provider cannot be reached by \<open>CleanUp\<close>, the
  credential \<open>s3cr3t\<close> stands in the text of the returned error.
\<close>

theorem credential_in_returned_error:
  "getAPIKey (example_env provider_rejects) example_config (ResourceNamespace example_challenge)
     = Inr ''s3cr3t'' \<and>
   fst (Present (example_env provider_rejects) example_challenge [])
     = Some (Err (''DODE API error for GET '' @ DQ
               @ ''?token=s3cr3t&domain=_acme-challenge.example.com&value=txt-value'' @ DQ
               @ '' rate limited'')) \<and>
   sublist ''s3cr3t''
     (text_of (the (fst (Present (example_env provider_rejects) example_challenge [])))) \<and>
   fst (CleanUp (example_env provider_unreachable) example_challenge [])
     = Some (Err (''Error querying DODE API for GET '' @ DQ
               @ ''https://www.do.de/api/letsencrypt?token=s3cr3t&domain=_acme-challenge.example.com&action=delete''
               @ DQ @ '' -> context deadline exceeded'')) \<and>
   sublist ''s3cr3t''
     (text_of (the (fst (CleanUp (example_env provider_unreachable) example_challenge []))))"
proof -
  note p = example_Present_rejected
  note c = example_CleanUp_unreachable
  have "sublist ''s3cr3t''
          ((''DODE API error for GET '' @ DQ @ ''?token='') @ ''s3cr3t''
             @ (''&domain=_acme-challenge.example.com&value=txt-value'' @ DQ @ '' rate limited''))"
    by (rule sublist_appendI)
  then have ps: "sublist ''s3cr3t''
     (text_of (the (fst (Present (example_env provider_rejects) example_challenge []))))"
    by (simp add: p)
  have "sublist ''s3cr3t''
          ((''Error querying DODE API for GET '' @ DQ @ ''https://www.do.de/api/letsencrypt?token='')
             @ ''s3cr3t''
             @ (''&domain=_acme-challenge.example.com&action=delete'' @ DQ
                  @ '' -> context deadline exceeded''))"
    by (rule sublist_appendI)
  then have cs: "sublist ''s3cr3t''
     (text_of (the (fst (CleanUp (example_env provider_unreachable) example_challenge []))))"
    by (simp add: c)
  from example_getAPIKey [of provider_rejects] p ps c cs show ?thesis by blast
qed

text \<open>
  C7 (amended): every error returned by \<open>Present\<close> or \<open>CleanUp\<close> has one of six forms.
  Three are raised before any request and are built from fixed text, the library's
  error text and resource identifiers only: the configuration decoding error; the
  secret lookup error, with the secret name; the missing key error, with the key (as
  \<open>%q\<close> prints it), the secret name and the namespace. Three come from \<open>makeRequest\<close>,
  for the URI \<open>?token=\<close> credential \<open>&domain=\<close> name followed by \<open>&value=\<close> TXT value or
  by \<open>&action=delete\<close>: the transport error, which prints (with \<open>%q\<close>) the whole URL,
  credential included, before the transport's error text; the decoder's own error,
  unchanged; and the provider's rejection, which prints (with \<open>%q\<close>) the URI, credential
  included, before the provider's error text.
\<close>

theorem returned_error_forms:
  "fst (Present E ch sent) = Some err \<or> fst (CleanUp E ch sent) = Some err \<longrightarrow>
   (\<exists>raw e. Config ch = Some raw \<and> json_Unmarshal E raw = Inl e \<and>
      err = Err (''error decoding solver config: '' @ text_of e)) \<or>
   (\<exists>cfg e. loadConfig E (Config ch) = Inr cfg \<and>
      Secrets_Get E (ResourceNamespace ch) (RefName (APITokenSecretRef cfg)) = Inl e \<and>
      err = Err (''unable to get secret '' @ BQ @ RefName (APITokenSecretRef cfg) @ BQ
              @ ''; '' @ text_of e)) \<or>
   (\<exists>cfg secData. loadConfig E (Config ch) = Inr cfg \<and>
      Secrets_Get E (ResourceNamespace ch) (RefName (APITokenSecretRef cfg)) = Inr secData \<and>
      secData (RefKey (APITokenSecretRef cfg)) = None \<and>
      err = Err (''key '' @ strconv_Quote E (RefKey (APITokenSecretRef cfg))
              @ '' not found in secret '' @ DQ @ RefName (APITokenSecretRef cfg)
              @ ''/'' @ ResourceNamespace ch @ DQ)) \<or>
   (\<exists>cfg apiKey uri. loadConfig E (Config ch) = Inr cfg \<and>
      getAPIKey E cfg (ResourceNamespace ch) = Inr apiKey \<and>
      (uri = ''?token='' @ apiKey @ ''&domain='' @ removeDOT (ResolvedFQDN ch)
               @ ''&value='' @ Key ch \<or>
       uri = ''?token='' @ apiKey @ ''&domain='' @ removeDOT (ResolvedFQDN ch)
               @ ''&action=delete'') \<and>
      ((\<exists>e. http_Get E sent (DodeAPIURL @ uri) = Inl e \<and>
          err = Err (''Error querying DODE API for '' @ ''GET'' @ '' ''
                  @ strconv_Quote E (DodeAPIURL @ uri) @ '' -> '' @ text_of e)) \<or>
       (\<exists>resp. http_Get E sent (DodeAPIURL @ uri) = Inr resp \<and>
          json_Decode E (Body resp) = Inl err) \<or>
       (\<exists>resp r. http_Get E sent (DodeAPIURL @ uri) = Inr resp \<and>
          json_Decode E (Body resp) = Inr r \<and> \<not> Success r \<and>
          err = Err (''DODE API error for '' @ ''GET'' @ '' '' @ strconv_Quote E uri
                  @ '' '' @ Error r))))"
proof (intro impI)
  assume returned: "fst (Present E ch sent) = Some err \<or> fst (CleanUp E ch sent) = Some err"
  show "(\<exists>raw e. Config ch = Some raw \<and> json_Unmarshal E raw = Inl e \<and>
      err = Err (''error decoding solver config: '' @ text_of e)) \<or>
   (\<exists>cfg e. loadConfig E (Config ch) = Inr cfg \<and>
      Secrets_Get E (ResourceNamespace ch) (RefName (APITokenSecretRef cfg)) = Inl e \<and>
      err = Err (''unable to get secret '' @ BQ @ RefName (APITokenSecretRef cfg) @ BQ
              @ ''; '' @ text_of e)) \<or>
   (\<exists>cfg secData. loadConfig E (Config ch) = Inr cfg \<and>
      Secrets_Get E (ResourceNamespace ch) (RefName (APITokenSecretRef cfg)) = Inr secData \<and>
      secData (RefKey (APITokenSecretRef cfg)) = None \<and>
      err = Err (''key '' @ strconv_Quote E (RefKey (APITokenSecretRef cfg))
              @ '' not found in secret '' @ DQ @ RefName (APITokenSecretRef cfg)
              @ ''/'' @ ResourceNamespace ch @ DQ)) \<or>
   (\<exists>cfg apiKey uri. loadConfig E (Config ch) = Inr cfg \<and>
      getAPIKey E cfg (ResourceNamespace ch) = Inr apiKey \<and>
      (uri = ''?token='' @ apiKey @ ''&domain='' @ removeDOT (ResolvedFQDN ch)
               @ ''&value='' @ Key ch \<or>
       uri = ''?token='' @ apiKey @ ''&domain='' @ removeDOT (ResolvedFQDN ch)
               @ ''&action=delete'') \<and>
      ((\<exists>e. http_Get E sent (DodeAPIURL @ uri) = Inl e \<and>
          err = Err (''Error querying DODE API for '' @ ''GET'' @ '' ''
                  @ strconv_Quote E (DodeAPIURL @ uri) @ '' -> '' @ text_of e)) \<or>
       (\<exists>resp. http_Get E sent (DodeAPIURL @ uri) = Inr resp \<and>
          json_Decode E (Body resp) = Inl err) \<or>
       (\<exists>resp r. http_Get E sent (DodeAPIURL @ uri) = Inr resp \<and>
          json_Decode E (Body resp) = Inr r \<and> \<not> Success r \<and>
          err = Err (''DODE API error for '' @ ''GET'' @ '' '' @ strconv_Quote E uri
                  @ '' '' @ Error r))))"
  proof (cases "loadConfig E (Config ch)")
    case (Inl e0)
    with returned have "err = e0"
      by (auto simp: Present_def CleanUp_def)
    with Inl loadConfig_error_form [of E "Config ch" err] show ?thesis
      by blast
  next
    case cfg: (Inr cfg)
    show ?thesis
    proof (cases "getAPIKey E cfg (ResourceNamespace ch)")
      case (Inl e0)
      with cfg returned have "err = e0"
        by (auto simp: Present_def CleanUp_def)
      with Inl have "getAPIKey E cfg (ResourceNamespace ch) = Inl err"
        by simp
      from getAPIKey_error_form [OF this] show ?thesis
      proof (elim disjE exE conjE)
        fix e
        assume "Secrets_Get E (ResourceNamespace ch) (RefName (APITokenSecretRef cfg)) = Inl e"
          and "err = Err (''unable to get secret '' @ BQ @ RefName (APITokenSecretRef cfg) @ BQ
                       @ ''; '' @ text_of e)"
        with cfg have "\<exists>cfg e. loadConfig E (Config ch) = Inr cfg \<and>
            Secrets_Get E (ResourceNamespace ch) (RefName (APITokenSecretRef cfg)) = Inl e \<and>
            err = Err (''unable to get secret '' @ BQ @ RefName (APITokenSecretRef cfg) @ BQ
                    @ ''; '' @ text_of e)"
          by (intro exI conjI)
        then show ?thesis
          by (rule disjI2 [OF disjI1])
      next
        fix secData
        assume "Secrets_Get E (ResourceNamespace ch) (RefName (APITokenSecretRef cfg)) = Inr secData"
          and "secData (RefKey (APITokenSecretRef cfg)) = None"
          and "err = Err (''key '' @ strconv_Quote E (RefKey (APITokenSecretRef cfg))
                       @ '' not found in secret '' @ DQ @ RefName (APITokenSecretRef cfg)
                       @ ''/'' @ ResourceNamespace ch @ DQ)"
        with cfg have "\<exists>cfg secData. loadConfig E (Config ch) = Inr cfg \<and>
            Secrets_Get E (ResourceNamespace ch) (RefName (APITokenSecretRef cfg)) = Inr secData \<and>
            secData (RefKey (APITokenSecretRef cfg)) = None \<and>
            err = Err (''key '' @ strconv_Quote E (RefKey (APITokenSecretRef cfg))
                    @ '' not found in secret '' @ DQ @ RefName (APITokenSecretRef cfg)
                    @ ''/'' @ ResourceNamespace ch @ DQ)"
          by (intro exI conjI)
        then show ?thesis
          by (rule disjI2 [OF disjI2 [OF disjI1]])
      qed
    next
      case key: (Inr apiKey)
      from returned obtain uri where
        uri: "uri = ''?token='' @ apiKey @ ''&domain='' @ removeDOT (ResolvedFQDN ch)
                      @ ''&value='' @ Key ch \<or>
              uri = ''?token='' @ apiKey @ ''&domain='' @ removeDOT (ResolvedFQDN ch)
                      @ ''&action=delete''"
        and failed: "fst (makeRequest E ''GET'' uri sent) = Inl err"
        unfolding Present_resolved [OF cfg key] CleanUp_resolved [OF cfg key] fst_conv
        by (auto split: sum.splits)
      from makeRequest_error_form [OF failed] uri cfg key show ?thesis
        by blast
    qed
  qed
qed

theorem returned_error_forms_instance:
  "fst (Present (example_env provider_rejects) example_challenge [])
     = Some (Err (''DODE API error for GET '' @ DQ
               @ ''?token=s3cr3t&domain=_acme-challenge.example.com&value=txt-value'' @ DQ
               @ '' rate limited'')) \<and>
   (\<exists>uri resp r.
      http_Get (example_env provider_rejects) [] (DodeAPIURL @ uri) = Inr resp \<and>
      json_Decode (example_env provider_rejects) (Body resp) = Inr r \<and> \<not> Success r \<and>
      Err (''DODE API error for GET '' @ DQ
               @ ''?token=s3cr3t&domain=_acme-challenge.example.com&value=txt-value'' @ DQ
               @ '' rate limited'')
        = Err (''DODE API error for '' @ ''GET'' @ '' ''
                @ strconv_Quote (example_env provider_rejects) uri @ '' '' @ Error r))"
proof -
  let ?E = "example_env provider_rejects"
  let ?err = "Err (''DODE API error for GET '' @ DQ
               @ ''?token=s3cr3t&domain=_acme-challenge.example.com&value=txt-value'' @ DQ
               @ '' rate limited'')"
  note h = example_Present_rejected
  have u: "json_Unmarshal ?E raw = Inl e \<Longrightarrow> Config example_challenge \<noteq> Some raw" for raw e
    by (auto simp: example_env_def example_challenge_def example_unmarshal_def)
  have s: "Secrets_Get ?E (ResourceNamespace example_challenge) (RefName (APITokenSecretRef example_config))
             = Inr [''apiToken'' \<mapsto> ''s3cr3t'']"
    by (simp add: example_env_def example_challenge_def example_config_def example_secrets_def)
  have g: "http_Get ?E [] url = Inr \<lparr>StatusCode = 200, Body = body_rate_limited\<rparr>" for url
    by (simp add: example_env_def provider_rejects_def)
  have d: "json_Decode ?E body_rate_limited
             = Inr \<lparr>Success = False, Error = ''rate limited''\<rparr>"
    by (simp add: example_env_def example_decode_def body_rate_limited_def body_success_def
        quote_plain_def)
  from returned_error_forms [of ?E example_challenge "[]" ?err] h
  have "\<exists>uri resp r.
      http_Get ?E [] (DodeAPIURL @ uri) = Inr resp \<and>
      json_Decode ?E (Body resp) = Inr r \<and> \<not> Success r \<and>
      ?err = Err (''DODE API error for '' @ ''GET'' @ '' '' @ strconv_Quote ?E uri @ '' '' @ Error r)"
  proof (elim impE disjE exE conjE)
    show "fst (Present ?E example_challenge []) = Some ?err \<or> fst (CleanUp ?E example_challenge []) = Some ?err"
      using h by (rule disjI1)
  next
    fix raw e
    assume "Config example_challenge = Some raw" "json_Unmarshal ?E raw = Inl e"
    with u show ?thesis by blast
  next
    fix cfg e
    assume "loadConfig ?E (Config example_challenge) = Inr cfg"
      "Secrets_Get ?E (ResourceNamespace example_challenge) (RefName (APITokenSecretRef cfg)) = Inl e"
    with s example_loadConfig [of provider_rejects] show ?thesis by simp
  next
    fix cfg secData
    assume "loadConfig ?E (Config example_challenge) = Inr cfg"
      "Secrets_Get ?E (ResourceNamespace example_challenge) (RefName (APITokenSecretRef cfg)) = Inr secData"
      "secData (RefKey (APITokenSecretRef cfg)) = None"
    with s example_loadConfig [of provider_rejects] show ?thesis
      by (auto simp: example_config_def)
  next
    fix uri :: string and e
    assume "http_Get ?E [] (DodeAPIURL @ uri) = Inl e"
    with g show ?thesis by simp
  next
    fix uri :: string and e
    assume "http_Get ?E [] (DodeAPIURL @ uri) = Inl e"
    with g show ?thesis by simp
  next
    fix uri :: string and resp
    assume "http_Get ?E [] (DodeAPIURL @ uri) = Inr resp" "json_Decode ?E (Body resp) = Inl ?err"
    with g [of "DodeAPIURL @ uri"] d show ?thesis by auto
  next
    fix uri :: string and resp
    assume "http_Get ?E [] (DodeAPIURL @ uri) = Inr resp" "json_Decode ?E (Body resp) = Inl ?err"
    with g [of "DodeAPIURL @ uri"] d show ?thesis by auto
  next
    fix uri :: string and resp r
    assume "http_Get ?E [] (DodeAPIURL @ uri) = Inr resp" "json_Decode ?E (Body resp) = Inr r"
      "\<not> Success r"
      "?err = Err (''DODE API error for '' @ ''GET'' @ '' '' @ strconv_Quote ?E uri @ '' '' @ Error r)"
    then show ?thesis by (intro exI conjI)
  next
    fix uri :: string and resp r
    assume "http_Get ?E [] (DodeAPIURL @ uri) = Inr resp" "json_Decode ?E (Body resp) = Inr r"
      "\<not> Success r"
      "?err = Err (''DODE API error for '' @ ''GET'' @ '' '' @ strconv_Quote ?E uri @ '' '' @ Error r)"
    then show ?thesis by (intro exI conjI)
  qed
  with h show ?thesis by (intro conjI)
qed

end
